theory Spec2Isabelle
  imports Complex_Main "HOL-Library.AList" "HOL-Library.Sublist"
begin

section \<open>Data model\<close>

text \<open>
  The catalog service of \<^verbatim>\<open>src/main.py\<close> works on untyped documents: Python dictionaries
  whose values are the value kinds of the document store. A dictionary is an association
  list, in insertion order, with \<open>map_of\<close> as lookup and \<open>AList.update\<close> as the
  assignment \<^verbatim>\<open>d[k] = v\<close>. Prices are Python floats; the code only stores and compares
  them, so a price is a \<open>real\<close> (the values NaN and infinity are outside this model).
  An identifier of the store is a 12-byte value, kept as the number it encodes.
\<close>

datatype oid = OID nat

datatype bson =
    BNull
  | BBool bool
  | BNum real
  | BStr string
  | BOid oid
  | BArr "bson list"
  | BDoc "(string \<times> bson) list"

type_synonym document = "(string \<times> bson) list"

text \<open>
  \<^verbatim>\<open>ProductFilter\<close> (lines 20-26), which is also the parameter list of
  \<^verbatim>\<open>list_products\<close> (lines 136-141): every field optional, default \<^verbatim>\<open>None\<close>.
\<close>

record ProductFilter =
  category :: "string option"
  min_price :: "real option"
  max_price :: "real option"
  size_f :: "string option"
  color :: "string option"
  q :: "string option"

text \<open>
  The errors the three routes can end in. \<open>HTTPException\<close> is what the routes raise
  themselves; the other three come out of the calls they make and are not caught.
\<close>

datatype error =
    HTTPException nat string
  | WriteError
  | OperationFailure
  | KeyError string

definition StoreUnavailable :: error where
  "StoreUnavailable = HTTPException 500 ''Database not configured''"

definition InvalidIdentifier :: error where
  "InvalidIdentifier = HTTPException 400 ''Invalid product id''"

definition NotFound :: error where
  "NotFound = HTTPException 404 ''Product not found''"

text \<open>
  Three library functions the routes depend on are not part of the repository; they are
  parameters of the model:
  \<^item> \<open>parse_ObjectId\<close> is \<^verbatim>\<open>ObjectId(product_id)\<close> on a string, \<open>None\<close> when it raises;
  \<^item> \<open>py_str\<close> is Python's \<^verbatim>\<open>str\<close> on a stored value;
  \<^item> \<open>regex_compile\<close> is the store's \<^verbatim>\<open>$regex\<close> operator: a pattern and its options give
    the predicate "the pattern is found somewhere in this string", or \<open>None\<close> when the
    store rejects the pattern.
\<close>

record extern =
  parse_ObjectId :: "string \<Rightarrow> oid option"
  py_str :: "bson \<Rightarrow> string"
  regex_compile :: "string \<Rightarrow> string \<Rightarrow> (string \<Rightarrow> bool) option"

section \<open>Python truth values and dictionary assignment\<close>

text \<open>
  An optional string parameter is tested as in \<^verbatim>\<open>if category:\<close>, which holds for a
  string that is neither \<^verbatim>\<open>None\<close> nor empty; the model writes the test out where it occurs.
\<close>

text \<open>
  Truth value of a stored value, as in \<^verbatim>\<open>if d.get("_id"):\<close>. An \<^verbatim>\<open>ObjectId\<close> defines
  neither \<^verbatim>\<open>__bool__\<close> nor \<^verbatim>\<open>__len__\<close>, so it is always true.
\<close>

fun truthy :: "bson \<Rightarrow> bool" where
  "truthy BNull = False"
| "truthy (BBool b) = b"
| "truthy (BNum x) = (x \<noteq> 0)"
| "truthy (BStr s) = (s \<noteq> [])"
| "truthy (BOid i) = True"
| "truthy (BArr xs) = (xs \<noteq> [])"
| "truthy (BDoc kvs) = (kvs \<noteq> [])"

definition dict_set :: "string \<Rightarrow> bson \<Rightarrow> document \<Rightarrow> document" where
  "dict_set k v d = AList.update k v d"

section \<open>The composite query of \<^verbatim>\<open>list_products\<close>\<close>

text \<open>
  Lines 150-156: the dictionary \<^verbatim>\<open>price_filter\<close>, built only when one of the bounds is
  not \<^verbatim>\<open>None\<close>.
\<close>

definition price_filter :: "real option \<Rightarrow> real option \<Rightarrow> document" where
  "price_filter lo hi =
     (let pf = [];
          pf = (case lo of Some a \<Rightarrow> dict_set ''$gte'' (BNum a) pf | None \<Rightarrow> pf);
          pf = (case hi of Some b \<Rightarrow> dict_set ''$lte'' (BNum b) pf | None \<Rightarrow> pf)
      in pf)"

text \<open>Lines 162-166: one alternative of the \<^verbatim>\<open>$or\<close> list.\<close>

definition regex_clause :: "string \<Rightarrow> string \<Rightarrow> bson" where
  "regex_clause field pat =
     BDoc [(field, BDoc [(''$regex'', BStr pat), (''$options'', BStr ''i'')])]"

text \<open>Lines 147-166: the dictionary \<^verbatim>\<open>query\<close>.\<close>

definition build_query :: "ProductFilter \<Rightarrow> document" where
  "build_query f =
     (let query = [];
          query = (case category f of
                     Some c \<Rightarrow> if c \<noteq> [] then dict_set ''category'' (BStr c) query else query
                   | None \<Rightarrow> query);
          query = (if min_price f \<noteq> None \<or> max_price f \<noteq> None
                   then dict_set ''price'' (BDoc (price_filter (min_price f) (max_price f))) query
                   else query);
          query = (case size_f f of
                     Some s \<Rightarrow> if s \<noteq> [] then dict_set ''sizes'' (BDoc [(''$in'', BArr [BStr s])]) query
                               else query
                   | None \<Rightarrow> query);
          query = (case color f of
                     Some c \<Rightarrow> if c \<noteq> [] then dict_set ''colors'' (BDoc [(''$in'', BArr [BStr c])]) query
                               else query
                   | None \<Rightarrow> query);
          query = (case q f of
                     Some t \<Rightarrow> if t \<noteq> []
                               then dict_set ''$or''
                                      (BArr [regex_clause ''title'' t,
                                             regex_clause ''description'' t,
                                             regex_clause ''tags'' t]) query
                               else query
                   | None \<Rightarrow> query)
      in query)"

section \<open>The document store\<close>

text \<open>
  A configured store: its named collections, each a list of documents in the store's own
  order; the number the next generated identifier encodes; and the store's acceptance
  test for a document offered for insertion (a write the store refuses is a
  \<open>WriteError\<close>). The module-level name \<^verbatim>\<open>db\<close> is a \<open>store option\<close>, \<open>None\<close> when no
  store is configured.
\<close>

record store =
  collections :: "string \<Rightarrow> document list"
  next_oid :: nat
  validator :: "document \<Rightarrow> bool"

text \<open>
  The state the routes run in: \<^verbatim>\<open>db\<close> and, as a ghost field that no code reads, the
  number of calls of \<^verbatim>\<open>create_document\<close> made so far.
\<close>

record world =
  db :: "store option"
  insert_calls :: nat

subsection \<open>Which documents a query selects\<close>

text \<open>
  The query language of the store, restricted to what the routes emit: a field compared
  with a string or an identifier (equality), an operator document with \<^verbatim>\<open>$gte\<close>,
  \<^verbatim>\<open>$lte\<close>, \<^verbatim>\<open>$in\<close> or \<^verbatim>\<open>$regex\<close> with \<^verbatim>\<open>$options\<close>, and a top-level \<^verbatim>\<open>$or\<close> over
  a list of such queries. All entries of a query must hold together. A field holding a list
  is tested on the list itself and on each of its elements; an absent field offers nothing
  to test.
\<close>

definition candidates :: "bson option \<Rightarrow> bson list" where
  "candidates fv = (case fv of None \<Rightarrow> [] | Some (BArr xs) \<Rightarrow> BArr xs # xs | Some v \<Rightarrow> [v])"

fun num_test :: "(real \<Rightarrow> bool) \<Rightarrow> bson \<Rightarrow> bool" where
  "num_test P (BNum x) = P x"
| "num_test P _ = False"

fun str_test :: "(string \<Rightarrow> bool) \<Rightarrow> bson \<Rightarrow> bool" where
  "str_test P (BStr s) = P s"
| "str_test P _ = False"

definition options_of :: "document \<Rightarrow> string" where
  "options_of ops = (case map_of ops ''$options'' of Some (BStr s) \<Rightarrow> s | _ \<Rightarrow> [])"

fun sat_op :: "extern \<Rightarrow> document \<Rightarrow> bson list \<Rightarrow> string \<times> bson \<Rightarrow> bool" where
  "sat_op X ops cs (name, arg) =
     (if name = ''$gte'' then (case arg of BNum a \<Rightarrow> list_ex (num_test (\<lambda>x. a \<le> x)) cs | _ \<Rightarrow> False)
      else if name = ''$lte'' then (case arg of BNum b \<Rightarrow> list_ex (num_test (\<lambda>x. x \<le> b)) cs | _ \<Rightarrow> False)
      else if name = ''$in'' then (case arg of BArr vs \<Rightarrow> list_ex (\<lambda>c. c \<in> set vs) cs | _ \<Rightarrow> False)
      else if name = ''$regex'' then
        (case arg of
           BStr pat \<Rightarrow> (case regex_compile X pat (options_of ops) of
                          Some found \<Rightarrow> list_ex (str_test found) cs
                        | None \<Rightarrow> False)
         | _ \<Rightarrow> False)
      else name = ''$options'')"

definition sat_cond :: "extern \<Rightarrow> document \<Rightarrow> string \<Rightarrow> bson \<Rightarrow> bool" where
  "sat_cond X d k c =
     (case c of
        BDoc ops \<Rightarrow> list_all (sat_op X ops (candidates (map_of d k))) ops
      | v \<Rightarrow> v \<in> set (candidates (map_of d k)))"

definition sat_flat :: "extern \<Rightarrow> document \<Rightarrow> bson \<Rightarrow> bool" where
  "sat_flat X d alt = (case alt of BDoc sub \<Rightarrow> list_all (\<lambda>(k, c). sat_cond X d k c) sub | _ \<Rightarrow> False)"

definition sat_clause :: "extern \<Rightarrow> document \<Rightarrow> string \<times> bson \<Rightarrow> bool" where
  "sat_clause X d kc =
     (case kc of (k, c) \<Rightarrow>
        if k = ''$or'' then (case c of BArr alts \<Rightarrow> list_ex (sat_flat X d) alts | _ \<Rightarrow> False)
        else sat_cond X d k c)"

definition matches :: "extern \<Rightarrow> document \<Rightarrow> document \<Rightarrow> bool" where
  "matches X query d = list_all (sat_clause X d) query"

text \<open>
  The queries the store answers. A pattern the store cannot compile makes the whole query
  fail, whatever the collection holds; a query outside the operators above is not modelled
  and is reported in the same way.
\<close>

fun op_ok :: "extern \<Rightarrow> document \<Rightarrow> string \<times> bson \<Rightarrow> bool" where
  "op_ok X ops (name, arg) =
     (if name = ''$gte'' \<or> name = ''$lte'' then (case arg of BNum a \<Rightarrow> True | _ \<Rightarrow> False)
      else if name = ''$in'' then (case arg of BArr vs \<Rightarrow> list_all (str_test (\<lambda>s. True)) vs | _ \<Rightarrow> False)
      else if name = ''$regex'' then
        (case arg of BStr pat \<Rightarrow> regex_compile X pat (options_of ops) \<noteq> None | _ \<Rightarrow> False)
      else if name = ''$options'' then
        (case arg of BStr opts \<Rightarrow> map_of ops ''$regex'' \<noteq> None | _ \<Rightarrow> False)
      else False)"

definition cond_ok :: "extern \<Rightarrow> bson \<Rightarrow> bool" where
  "cond_ok X c =
     (case c of
        BDoc ops \<Rightarrow> ops \<noteq> [] \<and> list_all (op_ok X ops) ops
      | BStr s \<Rightarrow> True
      | BOid i \<Rightarrow> True
      | _ \<Rightarrow> False)"

definition flat_ok :: "extern \<Rightarrow> bson \<Rightarrow> bool" where
  "flat_ok X alt =
     (case alt of BDoc sub \<Rightarrow> list_all (\<lambda>(k, c). k \<noteq> ''$or'' \<and> cond_ok X c) sub | _ \<Rightarrow> False)"

definition clause_ok :: "extern \<Rightarrow> string \<times> bson \<Rightarrow> bool" where
  "clause_ok X kc =
     (case kc of (k, c) \<Rightarrow>
        if k = ''$or'' then (case c of BArr alts \<Rightarrow> alts \<noteq> [] \<and> list_all (flat_ok X) alts | _ \<Rightarrow> False)
        else cond_ok X c)"

definition query_ok :: "extern \<Rightarrow> document \<Rightarrow> bool" where
  "query_ok X query = list_all (clause_ok X) query"

text \<open>
  \<^verbatim>\<open>db[name].find(query)\<close> as a list, and \<^verbatim>\<open>db[name].find_one(query)\<close>, which gives the
  first selected document or \<^verbatim>\<open>None\<close>.
\<close>

definition find :: "extern \<Rightarrow> store \<Rightarrow> string \<Rightarrow> document \<Rightarrow> error + document list" where
  "find X s name query =
     (if query_ok X query then Inr (filter (matches X query) (collections s name))
      else Inl OperationFailure)"

definition find_one :: "extern \<Rightarrow> store \<Rightarrow> string \<Rightarrow> document \<Rightarrow> error + document option" where
  "find_one X s name query =
     (case find X s name query of
        Inl e \<Rightarrow> Inl e
      | Inr ds \<Rightarrow> Inr (case ds of [] \<Rightarrow> None | d # _ \<Rightarrow> Some d))"

subsection \<open>The adapter module\<close>

text \<open>
  Modelled from the spec: \<^verbatim>\<open>get_documents\<close> of the module \<^verbatim>\<open>database\<close>, which is
  imported at line 8 and is not among the sources. Section 4.1 of the specification gives
  its contract as \<^verbatim>\<open>find(collection, query, limit)\<close>: it fails with \<open>StoreUnavailable\<close>
  when no store is configured, and otherwise returns at most \<open>limit\<close> of the selected
  documents, in the store's order, the empty list when none is selected.
\<close>

definition get_documents ::
  "extern \<Rightarrow> store option \<Rightarrow> string \<Rightarrow> document \<Rightarrow> nat \<Rightarrow> error + document list" where
  "get_documents X db_handle name query limit =
     (case db_handle of
        None \<Rightarrow> Inl StoreUnavailable
      | Some s \<Rightarrow> (case find X s name query of
                    Inl e \<Rightarrow> Inl e
                  | Inr ds \<Rightarrow> Inr (take limit ds)))"

text \<open>
  Modelled from the spec: \<^verbatim>\<open>create_document\<close> of the same missing module. Section 4.1
  gives its contract as \<^verbatim>\<open>insert(collection, record)\<close>: it fails with \<open>StoreUnavailable\<close>
  when no store is configured and with \<open>WriteError\<close> when the write fails; otherwise the
  store generates the identifier, keeps the record under it and returns it. Every call is
  counted in the ghost field, whether it succeeds or not.
\<close>

definition create_document :: "string \<Rightarrow> document \<Rightarrow> world \<Rightarrow> (error + oid) \<times> world" where
  "create_document name data w =
     (let w1 = w\<lparr>insert_calls := insert_calls w + 1\<rparr> in
      case db w of
        None \<Rightarrow> (Inl StoreUnavailable, w1)
      | Some s \<Rightarrow>
          if \<not> validator s data then (Inl WriteError, w1)
          else
            let i = OID (next_oid s);
                s' = s\<lparr>collections :=
                         (collections s)(name := collections s name @ [dict_set ''_id'' (BOid i) data]),
                       next_oid := next_oid s + 1\<rparr>
            in (Inr i, w1\<lparr>db := Some s'\<rparr>))"

section \<open>The routes\<close>

subsection \<open>\<^verbatim>\<open>seed_products\<close> (lines 74-131)\<close>

definition sample_products :: "document list" where
  "sample_products =
     [[(''title'', BStr ''Men's Classic Denim Jacket''),
       (''description'', BStr ''Timeless denim with a modern fit.''),
       (''price'', BNum (7999 / 100)),
       (''category'', BStr ''Men''),
       (''images'', BArr [BStr ''https://images.unsplash.com/photo-1520975916090-3105956dac38?q=80&w=1200&auto=format&fit=crop'']),
       (''sizes'', BArr [BStr ''S'', BStr ''M'', BStr ''L'', BStr ''XL'']),
       (''colors'', BArr [BStr ''Blue'']),
       (''rating'', BNum (46 / 10)),
       (''discount_percent'', BNum 10),
       (''in_stock'', BBool True),
       (''tags'', BArr [BStr ''jacket'', BStr ''denim'', BStr ''men''])],
      [(''title'', BStr ''Women's Linen Summer Dress''),
       (''description'', BStr ''Breathable, elegant, and perfect for warm days.''),
       (''price'', BNum (6450 / 100)),
       (''category'', BStr ''Women''),
       (''images'', BArr [BStr ''https://images.unsplash.com/photo-1519238263530-99bdd11df2ea?q=80&w=1200&auto=format&fit=crop'']),
       (''sizes'', BArr [BStr ''XS'', BStr ''S'', BStr ''M'', BStr ''L'']),
       (''colors'', BArr [BStr ''Beige'', BStr ''Olive'']),
       (''rating'', BNum (47 / 10)),
       (''discount_percent'', BNum 0),
       (''in_stock'', BBool True),
       (''tags'', BArr [BStr ''dress'', BStr ''linen'', BStr ''women''])],
      [(''title'', BStr ''Unisex Oversized Hoodie''),
       (''description'', BStr ''Cozy fleece-lined hoodie for everyday comfort.''),
       (''price'', BNum 49),
       (''category'', BStr ''Accessories''),
       (''images'', BArr [BStr ''https://images.unsplash.com/photo-1516826957135-700dedea698c?q=80&w=1200&auto=format&fit=crop'']),
       (''sizes'', BArr [BStr ''S'', BStr ''M'', BStr ''L'', BStr ''XL'']),
       (''colors'', BArr [BStr ''Black'', BStr ''Grey'']),
       (''rating'', BNum (44 / 10)),
       (''discount_percent'', BNum 15),
       (''in_stock'', BBool True),
       (''tags'', BArr [BStr ''hoodie'', BStr ''unisex''])]]"

text \<open>
  Lines 127-130: the loop over the products, with \<^verbatim>\<open>inserted_ids\<close> as accumulator. An
  error of \<^verbatim>\<open>create_document\<close> is not caught and ends the loop.
\<close>

fun seed_loop :: "document list \<Rightarrow> oid list \<Rightarrow> world \<Rightarrow> (error + oid list) \<times> world" where
  "seed_loop [] inserted_ids w = (Inr inserted_ids, w)"
| "seed_loop (p # ps) inserted_ids w =
     (case create_document ''clothingproduct'' p w of
        (Inl e, w') \<Rightarrow> (Inl e, w')
      | (Inr i, w') \<Rightarrow> seed_loop ps (inserted_ids @ [i]) w')"

text \<open>The result is the list stored under the key \<^verbatim>\<open>"inserted"\<close> of the response.\<close>

definition seed_products :: "world \<Rightarrow> (error + oid list) \<times> world" where
  "seed_products w =
     (if db w = None then (Inl StoreUnavailable, w)
      else seed_loop sample_products [] w)"

subsection \<open>\<^verbatim>\<open>list_products\<close> (lines 134-173)\<close>

text \<open>
  Lines 170-172, the body of the loop over the documents found: \<^verbatim>\<open>d.get("_id")\<close> is
  \<^verbatim>\<open>None\<close> for a document without the key, and \<^verbatim>\<open>None\<close> is false.
\<close>

definition normalize_id :: "extern \<Rightarrow> document \<Rightarrow> document" where
  "normalize_id X d =
     (case map_of d ''_id'' of
        None \<Rightarrow> d
      | Some v \<Rightarrow> if truthy v then dict_set ''_id'' (BStr (py_str X v)) d else d)"

text \<open>
  The parameter \<^verbatim>\<open>limit\<close> is declared with the bounds 1 and 200 and the default 50; the
  framework enforces them before the body runs.
\<close>

definition list_products ::
  "extern \<Rightarrow> store option \<Rightarrow> ProductFilter \<Rightarrow> nat \<Rightarrow> error + document list" where
  "list_products X db_handle f limit =
     (if db_handle = None then Inr []
      else
        case get_documents X db_handle ''clothingproduct'' (build_query f) limit of
          Inl e \<Rightarrow> Inl e
        | Inr docs \<Rightarrow> Inr (map (normalize_id X) docs))"

subsection \<open>\<^verbatim>\<open>get_product\<close> (lines 176-188)\<close>

text \<open>
  \<^verbatim>\<open>if not doc\<close> holds for \<^verbatim>\<open>None\<close> and for an empty dictionary; \<^verbatim>\<open>doc["_id"]\<close> raises
  \<^verbatim>\<open>KeyError\<close> on a dictionary without the key.
\<close>

definition get_product :: "extern \<Rightarrow> store option \<Rightarrow> string \<Rightarrow> error + document" where
  "get_product X db_handle product_id =
     (case db_handle of
        None \<Rightarrow> Inl StoreUnavailable
      | Some s \<Rightarrow>
          (case parse_ObjectId X product_id of
             None \<Rightarrow> Inl InvalidIdentifier
           | Some obj_id \<Rightarrow>
               (case find_one X s ''clothingproduct'' [(''_id'', BOid obj_id)] of
                  Inl e \<Rightarrow> Inl e
                | Inr None \<Rightarrow> Inl NotFound
                | Inr (Some doc) \<Rightarrow>
                    if doc = [] then Inl NotFound
                    else (case map_of doc ''_id'' of
                            None \<Rightarrow> Inl (KeyError ''_id'')
                          | Some v \<Rightarrow> Inr (dict_set ''_id'' (BStr (py_str X v)) doc)))))"

section \<open>Vocabulary of the properties\<close>

text \<open>
  The string a parameter contributes when the route takes it as given: the test
  \<^verbatim>\<open>if category:\<close> passes for a string that is not empty.
\<close>

definition active_str :: "string option \<Rightarrow> string option" where
  "active_str p = (case p of Some s \<Rightarrow> if s \<noteq> [] then Some s else None | None \<Rightarrow> None)"

text \<open>
  What a record offers to a constraint on one of its fields: \<open>has_value d k v\<close> when the
  field is \<open>v\<close> or a list with the element \<open>v\<close>, \<open>has_num d k P\<close> when it is a number
  with the property \<open>P\<close> or a list with such a number, \<open>has_str d k P\<close> likewise for
  strings.
\<close>

definition has_value :: "document \<Rightarrow> string \<Rightarrow> bson \<Rightarrow> bool" where
  "has_value d k v = (v \<in> set (candidates (map_of d k)))"

definition has_num :: "document \<Rightarrow> string \<Rightarrow> (real \<Rightarrow> bool) \<Rightarrow> bool" where
  "has_num d k P = list_ex (num_test P) (candidates (map_of d k))"

definition has_str :: "document \<Rightarrow> string \<Rightarrow> (string \<Rightarrow> bool) \<Rightarrow> bool" where
  "has_str d k P = list_ex (str_test P) (candidates (map_of d k))"

text \<open>Containment of one string in another without regard to the case of ASCII letters.\<close>

definition lower_char :: "char \<Rightarrow> char" where
  "lower_char c =
     (case map_of (zip ''ABCDEFGHIJKLMNOPQRSTUVWXYZ'' ''abcdefghijklmnopqrstuvwxyz'') c of
        Some l \<Rightarrow> l
      | None \<Rightarrow> c)"

fun starts_with :: "string \<Rightarrow> string \<Rightarrow> bool" where
  "starts_with [] s = True"
| "starts_with (p # ps) [] = False"
| "starts_with (p # ps) (c # cs) = (p = c \<and> starts_with ps cs)"

fun contains :: "string \<Rightarrow> string \<Rightarrow> bool" where
  "contains pat [] = (pat = [])"
| "contains pat (c # cs) = (starts_with pat (c # cs) \<or> contains pat cs)"

definition ci_contains :: "string \<Rightarrow> string \<Rightarrow> bool" where
  "ci_contains pat s = contains (map lower_char pat) (map lower_char s)"

section \<open>An instance of the library parameters\<close>

text \<open>
  For the examples the parameters are instantiated as follows. An identifier is written
  as 24 hexadecimal digits. Patterns are the regular expressions made of ordinary
  characters and the wildcard \<^verbatim>\<open>.\<close>, which stands for any character but a line feed; a
  pattern with any other special character is outside the instance and is rejected, as is
  any option string other than \<^verbatim>\<open>i\<close> and the empty one.
\<close>

definition hex_value :: "char \<Rightarrow> nat option" where
  "hex_value c =
     map_of (zip ''0123456789abcdefABCDEF''
                 [0, 1, 2, 3, 4, 5, 6, 7, 8, 9, 10, 11, 12, 13, 14, 15, 10, 11, 12, 13, 14, 15]) c"

fun hex_parse :: "string \<Rightarrow> nat \<Rightarrow> nat option" where
  "hex_parse [] acc = Some acc"
| "hex_parse (c # cs) acc =
     (case hex_value c of None \<Rightarrow> None | Some v \<Rightarrow> hex_parse cs (16 * acc + v))"

fun hex_digits :: "nat \<Rightarrow> nat \<Rightarrow> string" where
  "hex_digits 0 n = []"
| "hex_digits (Suc k) n = hex_digits k (n div 16) @ [''0123456789abcdef'' ! (n mod 16)]"

definition hex24_parse :: "string \<Rightarrow> oid option" where
  "hex24_parse s = (if length s = 24 then map_option OID (hex_parse s 0) else None)"

fun show_value :: "bson \<Rightarrow> string" where
  "show_value (BOid (OID n)) = hex_digits 24 n"
| "show_value (BStr s) = s"
| "show_value _ = ''?''"

fun dot_prefix :: "bool \<Rightarrow> string \<Rightarrow> string \<Rightarrow> bool" where
  "dot_prefix ci [] s = True"
| "dot_prefix ci (p # ps) [] = False"
| "dot_prefix ci (p # ps) (c # cs) =
     ((if p = CHR ''.'' then c \<noteq> CHR 0x0A
       else if ci then lower_char p = lower_char c
       else p = c)
      \<and> dot_prefix ci ps cs)"

fun dot_search :: "bool \<Rightarrow> string \<Rightarrow> string \<Rightarrow> bool" where
  "dot_search ci pat [] = (pat = [])"
| "dot_search ci pat (c # cs) = (dot_prefix ci pat (c # cs) \<or> dot_search ci pat cs)"

definition special_chars :: "char list" where
  "special_chars =
     [CHR 0x5C, CHR ''^'', CHR ''$'', CHR ''|'', CHR ''?'', CHR ''*'', CHR ''+'',
      CHR ''('', CHR '')'', CHR ''['', CHR '']'', CHR ''{'', CHR ''}'']"

definition dot_compile :: "string \<Rightarrow> string \<Rightarrow> (string \<Rightarrow> bool) option" where
  "dot_compile pat opts =
     (if list_ex (\<lambda>c. c \<in> set special_chars) pat then None
      else if opts = ''i'' then Some (dot_search True pat)
      else if opts = [] then Some (dot_search False pat)
      else None)"

definition sample_extern :: extern where
  "sample_extern =
     \<lparr>parse_ObjectId = hex24_parse, py_str = show_value, regex_compile = dot_compile\<rparr>"

definition no_filter :: ProductFilter where
  "no_filter =
     \<lparr>category = None, min_price = None, max_price = None, size_f = None, color = None, q = None\<rparr>"

definition store_of :: "document list \<Rightarrow> store" where
  "store_of docs =
     \<lparr>collections = (\<lambda>name. if name = ''clothingproduct'' then docs else []),
      next_oid = length docs,
      validator = (\<lambda>d. True)\<rparr>"

text \<open>
  The records of the examples: two with the category "Men" and the prices 80 and 40, one
  with the title "Summer Dress", and one that has a title and no identifier.
\<close>

definition record_R1 :: document where
  "record_R1 = [(''_id'', BOid (OID 1)), (''category'', BStr ''Men''), (''price'', BNum 80)]"

definition record_R2 :: document where
  "record_R2 = [(''_id'', BOid (OID 2)), (''category'', BStr ''Men''), (''price'', BNum 40)]"

definition summer_dress :: document where
  "summer_dress = [(''_id'', BOid (OID 3)), (''title'', BStr ''Summer Dress'')]"

definition untagged :: document where
  "untagged = [(''title'', BStr ''abc'')]"

section \<open>The composite query in closed form\<close>

lemma map_of_dict_set: "map_of (dict_set k v d) = (map_of d)(k \<mapsto> v)"
  by (simp add: dict_set_def update_conv')

lemma price_filter_eq:
  "price_filter lo hi =
     (case lo of Some a \<Rightarrow> [(''$gte'', BNum a)] | None \<Rightarrow> []) @
     (case hi of Some b \<Rightarrow> [(''$lte'', BNum b)] | None \<Rightarrow> [])"
  by (simp add: price_filter_def dict_set_def split: option.splits)

lemma active_str_simps:
  "active_str None = None"
  "active_str (Some []) = None"
  "s \<noteq> [] \<Longrightarrow> active_str (Some s) = Some s"
  by (simp_all add: active_str_def)

text \<open>
  The keys are assigned at most once each and in a fixed order, so the dictionary is the
  concatenation of the entries of the parameters the route takes as given.
\<close>

lemma build_query_eq:
  "build_query f =
     (case active_str (category f) of Some c \<Rightarrow> [(''category'', BStr c)] | None \<Rightarrow> []) @
     (if min_price f = None \<and> max_price f = None then []
      else [(''price'', BDoc (price_filter (min_price f) (max_price f)))]) @
     (case active_str (size_f f) of
        Some s \<Rightarrow> [(''sizes'', BDoc [(''$in'', BArr [BStr s])])] | None \<Rightarrow> []) @
     (case active_str (color f) of
        Some c \<Rightarrow> [(''colors'', BDoc [(''$in'', BArr [BStr c])])] | None \<Rightarrow> []) @
     (case active_str (q f) of
        Some t \<Rightarrow> [(''$or'', BArr [regex_clause ''title'' t, regex_clause ''description'' t,
                                  regex_clause ''tags'' t])]
      | None \<Rightarrow> [])"
  by (cases "category f"; cases "size_f f"; cases "color f"; cases "q f";
      simp add: build_query_def active_str_def dict_set_def Let_def)

section \<open>The price constraint\<close>

text \<open>
  Claim C2. The query of \<^verbatim>\<open>list_products\<close> has an entry for the price exactly when
  \<^verbatim>\<open>min_price\<close> or \<^verbatim>\<open>max_price\<close> is given. The entry then holds the lower bound
  \<^verbatim>\<open>$gte\<close> exactly when \<^verbatim>\<open>min_price\<close> is given and the upper bound \<^verbatim>\<open>$lte\<close> exactly when
  \<^verbatim>\<open>max_price\<close> is given, each with the value given; a bound that is not given does not
  occur, so no value such as 0 or infinity stands in for it.
\<close>

theorem C2_price_constraint:
  "map_of (build_query f) ''price'' =
     (if min_price f = None \<and> max_price f = None then None
      else Some (BDoc ((case min_price f of Some a \<Rightarrow> [(''$gte'', BNum a)] | None \<Rightarrow> []) @
                       (case max_price f of Some b \<Rightarrow> [(''$lte'', BNum b)] | None \<Rightarrow> []))))"
  by (simp add: build_query_eq price_filter_eq map_add_def split: option.splits)

theorem C2_price_constraint_witness:
  "map_of (build_query (no_filter\<lparr>min_price := Some 50\<rparr>)) ''price'' = Some (BDoc [(''$gte'', BNum 50)]) \<and>
   map_of (build_query (no_filter\<lparr>max_price := Some 0\<rparr>)) ''price'' = Some (BDoc [(''$lte'', BNum 0)]) \<and>
   map_of (build_query (no_filter\<lparr>category := Some ''Men''\<rparr>)) ''price'' = None"
  using C2_price_constraint [of "no_filter\<lparr>min_price := Some 50\<rparr>"]
        C2_price_constraint [of "no_filter\<lparr>max_price := Some 0\<rparr>"]
        C2_price_constraint [of "no_filter\<lparr>category := Some ''Men''\<rparr>"]
  by (simp add: no_filter_def)

section \<open>Which parameters count as given\<close>

text \<open>
  Claim C10. An empty string for \<^verbatim>\<open>category\<close>, \<^verbatim>\<open>size\<close>, \<^verbatim>\<open>color\<close> or \<^verbatim>\<open>q\<close> gives the
  same query as leaving the parameter out, and that query has no entry for it; a
  \<^verbatim>\<open>min_price\<close> or \<^verbatim>\<open>max_price\<close> of 0 is taken as given and its bound is in the query.
\<close>

theorem C10_presence_asymmetry:
  "build_query (f\<lparr>category := Some ''''\<rparr>) = build_query (f\<lparr>category := None\<rparr>) \<and>
   build_query (f\<lparr>size_f := Some ''''\<rparr>) = build_query (f\<lparr>size_f := None\<rparr>) \<and>
   build_query (f\<lparr>color := Some ''''\<rparr>) = build_query (f\<lparr>color := None\<rparr>) \<and>
   build_query (f\<lparr>q := Some ''''\<rparr>) = build_query (f\<lparr>q := None\<rparr>) \<and>
   map_of (build_query (f\<lparr>category := Some ''''\<rparr>)) ''category'' = None \<and>
   map_of (build_query (f\<lparr>size_f := Some ''''\<rparr>)) ''sizes'' = None \<and>
   map_of (build_query (f\<lparr>color := Some ''''\<rparr>)) ''colors'' = None \<and>
   map_of (build_query (f\<lparr>q := Some ''''\<rparr>)) ''$or'' = None \<and>
   map_of (build_query (f\<lparr>min_price := Some 0\<rparr>)) ''price'' =
     Some (BDoc ([(''$gte'', BNum 0)] @
                 (case max_price f of Some b \<Rightarrow> [(''$lte'', BNum b)] | None \<Rightarrow> []))) \<and>
   map_of (build_query (f\<lparr>max_price := Some 0\<rparr>)) ''price'' =
     Some (BDoc ((case min_price f of Some a \<Rightarrow> [(''$gte'', BNum a)] | None \<Rightarrow> []) @
                 [(''$lte'', BNum 0)]))"
proof -
  have e1: "build_query (f\<lparr>category := Some ''''\<rparr>) = build_query (f\<lparr>category := None\<rparr>)"
    by (simp add: build_query_eq active_str_simps)
  have e2: "build_query (f\<lparr>size_f := Some ''''\<rparr>) = build_query (f\<lparr>size_f := None\<rparr>)"
    by (simp add: build_query_eq active_str_simps)
  have e3: "build_query (f\<lparr>color := Some ''''\<rparr>) = build_query (f\<lparr>color := None\<rparr>)"
    by (simp add: build_query_eq active_str_simps)
  have e4: "build_query (f\<lparr>q := Some ''''\<rparr>) = build_query (f\<lparr>q := None\<rparr>)"
    by (simp add: build_query_eq active_str_simps)
  have n1: "map_of (build_query (f\<lparr>category := Some ''''\<rparr>)) ''category'' = None"
    by (simp add: build_query_eq active_str_simps map_add_def split: option.splits)
  have n2: "map_of (build_query (f\<lparr>size_f := Some ''''\<rparr>)) ''sizes'' = None"
    by (simp add: build_query_eq active_str_simps map_add_def split: option.splits)
  have n3: "map_of (build_query (f\<lparr>color := Some ''''\<rparr>)) ''colors'' = None"
    by (simp add: build_query_eq active_str_simps map_add_def split: option.splits)
  have n4: "map_of (build_query (f\<lparr>q := Some ''''\<rparr>)) ''$or'' = None"
    by (simp add: build_query_eq active_str_simps map_add_def split: option.splits)
  have p1: "map_of (build_query (f\<lparr>min_price := Some 0\<rparr>)) ''price'' =
     Some (BDoc ([(''$gte'', BNum 0)] @
                 (case max_price f of Some b \<Rightarrow> [(''$lte'', BNum b)] | None \<Rightarrow> [])))"
    by (simp add: build_query_eq price_filter_eq map_add_def split: option.splits)
  have p2: "map_of (build_query (f\<lparr>max_price := Some 0\<rparr>)) ''price'' =
     Some (BDoc ((case min_price f of Some a \<Rightarrow> [(''$gte'', BNum a)] | None \<Rightarrow> []) @
                 [(''$lte'', BNum 0)]))"
    by (simp add: build_query_eq price_filter_eq map_add_def split: option.splits)
  from e1 e2 e3 e4 n1 n2 n3 n4 p1 p2 show ?thesis by blast
qed

theorem C10_presence_asymmetry_witness:
  "build_query (no_filter\<lparr>category := Some ''''\<rparr>) = [] \<and>
   build_query (no_filter\<lparr>size_f := Some ''''\<rparr>) = [] \<and>
   build_query (no_filter\<lparr>color := Some ''''\<rparr>) = [] \<and>
   build_query (no_filter\<lparr>q := Some ''''\<rparr>) = [] \<and>
   map_of (build_query (no_filter\<lparr>min_price := Some 0\<rparr>)) ''price'' = Some (BDoc [(''$gte'', BNum 0)]) \<and>
   map_of (build_query (no_filter\<lparr>max_price := Some 0\<rparr>)) ''price'' = Some (BDoc [(''$lte'', BNum 0)])"
  using C10_presence_asymmetry [of no_filter]
  by (simp add: no_filter_def build_query_eq active_str_simps)

section \<open>No store configured\<close>

text \<open>
  Claim C6. Without a configured store \<^verbatim>\<open>list_products\<close> returns the empty list and does
  not fail, while \<^verbatim>\<open>seed_products\<close> and \<^verbatim>\<open>get_product\<close> fail with \<open>StoreUnavailable\<close>;
  \<^verbatim>\<open>seed_products\<close> fails without a single call of \<^verbatim>\<open>create_document\<close>, as the count of
  calls is the one it started with.
\<close>

theorem C6_store_not_configured:
  "list_products X None f limit = Inr [] \<and>
   seed_products \<lparr>db = None, insert_calls = n\<rparr> =
     (Inl StoreUnavailable, \<lparr>db = None, insert_calls = n\<rparr>) \<and>
   get_product X None product_id = Inl StoreUnavailable"
  by (simp add: list_products_def seed_products_def get_product_def)

theorem C6_store_not_configured_witness:
  "list_products sample_extern None no_filter 50 = Inr [] \<and>
   fst (seed_products \<lparr>db = None, insert_calls = 0\<rparr>) =
     Inl (HTTPException 500 ''Database not configured'') \<and>
   insert_calls (snd (seed_products \<lparr>db = None, insert_calls = 0\<rparr>)) = 0 \<and>
   get_product sample_extern None ''000000000000000000000001'' =
     Inl (HTTPException 500 ''Database not configured'')"
  using C6_store_not_configured [of sample_extern no_filter 50 0 "''000000000000000000000001''"]
  by (simp add: StoreUnavailable_def)

section \<open>What the composite query selects\<close>

text \<open>
  Each entry of the query, read as a condition on a record, and the query as a whole as
  the conjunction of the conditions of its entries.
\<close>

lemma options_of_regex [simp]:
  "options_of [(''$regex'', BStr t), (''$options'', BStr ''i'')] = ''i''"
  by (simp add: options_of_def)

lemma sat_cond_value:
  "sat_cond X d k (BStr c) = has_value d k (BStr c)"
  "sat_cond X d k (BOid i) = has_value d k (BOid i)"
  by (simp_all add: sat_cond_def has_value_def)

lemma sat_cond_in:
  "sat_cond X d k (BDoc [(''$in'', BArr [v])]) = has_value d k v"
  by (auto simp add: sat_cond_def has_value_def list_ex_iff)

lemma sat_cond_price:
  "sat_cond X d k (BDoc (price_filter lo hi)) =
     ((\<forall>a. lo = Some a \<longrightarrow> has_num d k (\<lambda>x. a \<le> x)) \<and>
      (\<forall>b. hi = Some b \<longrightarrow> has_num d k (\<lambda>x. x \<le> b)))"
  by (simp add: sat_cond_def has_num_def price_filter_eq split: option.splits)

lemma sat_flat_regex:
  "sat_flat X d (regex_clause k t) =
     (case regex_compile X t ''i'' of Some found \<Rightarrow> has_str d k found | None \<Rightarrow> False)"
  by (simp add: sat_flat_def regex_clause_def sat_cond_def has_str_def split: option.splits)

lemma sat_clause_or:
  "sat_clause X d (''$or'', BArr [regex_clause ''title'' t, regex_clause ''description'' t,
                                  regex_clause ''tags'' t]) =
     (case regex_compile X t ''i'' of
        Some found \<Rightarrow> has_str d ''title'' found \<or> has_str d ''description'' found \<or>
                      has_str d ''tags'' found
      | None \<Rightarrow> False)"
  by (simp add: sat_clause_def sat_flat_regex split: option.splits)

lemma sat_clause_field:
  "k \<noteq> ''$or'' \<Longrightarrow> sat_clause X d (k, c) = sat_cond X d k c"
  by (simp add: sat_clause_def)

lemma matches_build_query:
  "matches X (build_query f) d =
     ((\<forall>c. active_str (category f) = Some c \<longrightarrow> has_value d ''category'' (BStr c)) \<and>
      (\<forall>a. min_price f = Some a \<longrightarrow> has_num d ''price'' (\<lambda>x. a \<le> x)) \<and>
      (\<forall>b. max_price f = Some b \<longrightarrow> has_num d ''price'' (\<lambda>x. x \<le> b)) \<and>
      (\<forall>s. active_str (size_f f) = Some s \<longrightarrow> has_value d ''sizes'' (BStr s)) \<and>
      (\<forall>c. active_str (color f) = Some c \<longrightarrow> has_value d ''colors'' (BStr c)) \<and>
      (\<forall>t. active_str (q f) = Some t \<longrightarrow>
           (case regex_compile X t ''i'' of
              Some found \<Rightarrow> has_str d ''title'' found \<or> has_str d ''description'' found \<or>
                            has_str d ''tags'' found
            | None \<Rightarrow> False)))"
  unfolding matches_def build_query_eq list_all_append
  by (cases "active_str (category f)"; cases "active_str (size_f f)";
      cases "active_str (color f)"; cases "active_str (q f)";
      simp add: sat_clause_field sat_clause_or sat_cond_value sat_cond_in sat_cond_price;
      blast)

lemma cond_ok_price: "lo \<noteq> None \<or> hi \<noteq> None \<Longrightarrow> cond_ok X (BDoc (price_filter lo hi))"
  by (auto simp add: cond_ok_def price_filter_eq split: option.splits)

lemma cond_ok_simple:
  "cond_ok X (BStr c)" "cond_ok X (BOid i)" "cond_ok X (BDoc [(''$in'', BArr [BStr s])])"
  by (simp_all add: cond_ok_def)

lemma flat_ok_regex:
  "k \<noteq> ''$or'' \<Longrightarrow> flat_ok X (regex_clause k t) = (regex_compile X t ''i'' \<noteq> None)"
  by (simp add: flat_ok_def regex_clause_def cond_ok_def)

lemma query_ok_build_query:
  "query_ok X (build_query f) =
     (\<forall>t. active_str (q f) = Some t \<longrightarrow> regex_compile X t ''i'' \<noteq> None)"
  unfolding query_ok_def build_query_eq list_all_append
  by (cases "active_str (category f)"; cases "active_str (size_f f)";
      cases "active_str (color f)"; cases "active_str (q f)";
      simp add: clause_ok_def cond_ok_price flat_ok_regex cond_ok_simple)

section \<open>Listing\<close>

lemma list_products_Some:
  "list_products X (Some s) f limit =
     (if query_ok X (build_query f)
      then Inr (map (normalize_id X)
                  (take limit (filter (matches X (build_query f)) (collections s ''clothingproduct''))))
      else Inl OperationFailure)"
  by (simp add: list_products_def get_documents_def find_def)

lemma normalize_id_other: "k \<noteq> ''_id'' \<Longrightarrow> map_of (normalize_id X d) k = map_of d k"
  by (simp add: normalize_id_def map_of_dict_set split: option.splits)

lemma normalize_id_keys: "map fst (normalize_id X d) = map fst d"
proof (cases "map_of d ''_id''")
  case None
  then show ?thesis by (simp add: normalize_id_def)
next
  case (Some v)
  then have "''_id'' \<in> set (map fst d)"
    by (metis domI dom_map_of_conv_image_fst set_map)
  then show ?thesis
    by (simp add: normalize_id_def dict_set_def update_keys Some)
qed

lemma normalize_id_id:
  "map_of (normalize_id X d) ''_id'' =
     (case map_of d ''_id'' of
        None \<Rightarrow> None
      | Some v \<Rightarrow> if truthy v then Some (BStr (py_str X v)) else Some v)"
  by (simp add: normalize_id_def map_of_dict_set split: option.splits)

lemma normalize_id_absent: "map_of d ''_id'' = None \<Longrightarrow> normalize_id X d = d"
  by (simp add: normalize_id_def)

lemma normalize_id_never_oid: "map_of (normalize_id X d) ''_id'' \<noteq> Some (BOid i)"
  by (auto simp add: normalize_id_id split: option.splits)

text \<open>
  Claim C3. When no parameter of the filter is given, the query is the empty dictionary,
  which every record satisfies, and \<^verbatim>\<open>list_products\<close> returns the first \<open>limit\<close> records
  of the collection, each with its identifier normalised: at most \<open>limit\<close> records, none
  left out by a constraint.
\<close>

theorem C3_empty_filter:
  "category f = None \<Longrightarrow> min_price f = None \<Longrightarrow> max_price f = None \<Longrightarrow>
   size_f f = None \<Longrightarrow> color f = None \<Longrightarrow> q f = None \<Longrightarrow>
   build_query f = [] \<and>
   (\<forall>d. matches X (build_query f) d) \<and>
   list_products X (Some s) f limit =
     Inr (map (normalize_id X) (take limit (collections s ''clothingproduct''))) \<and>
   length (map (normalize_id X) (take limit (collections s ''clothingproduct''))) \<le> limit"
  by (simp add: list_products_Some build_query_eq active_str_simps matches_def query_ok_def)

theorem C3_empty_filter_witness:
  "build_query no_filter = [] \<and>
   list_products sample_extern (Some (store_of [record_R1, record_R2])) no_filter 1 =
     Inr [[(''_id'', BStr ''000000000000000000000001''), (''category'', BStr ''Men''),
           (''price'', BNum 80)]]"
proof -
  have n: "normalize_id sample_extern record_R1 =
      [(''_id'', BStr ''000000000000000000000001''), (''category'', BStr ''Men''),
       (''price'', BNum 80)]"
    by code_simp
  show ?thesis
    using C3_empty_filter [of no_filter sample_extern "store_of [record_R1, record_R2]" 1] n
    by (simp add: no_filter_def store_of_def)
qed

text \<open>
  Claim C4. The constraints are combined by conjunction: every record that
  \<^verbatim>\<open>list_products\<close> returns is a stored record that meets the category, both price
  bounds, the size, the colour and the free-text alternative, each as far as it is given;
  so a free-text query narrows the result of the other filters. The example of the
  specification is the witness below: of the two records of category "Men" with the prices
  80 and 40, the filter with category "Men" and \<^verbatim>\<open>min_price\<close> 50 returns the first only.
\<close>

theorem C4_conjunctive:
  assumes "list_products X (Some s) f limit = Inr out" and "r \<in> set out"
  shows "\<exists>d \<in> set (collections s ''clothingproduct'').
           r = normalize_id X d \<and>
           (\<forall>c. active_str (category f) = Some c \<longrightarrow> has_value d ''category'' (BStr c)) \<and>
           (\<forall>a. min_price f = Some a \<longrightarrow> has_num d ''price'' (\<lambda>x. a \<le> x)) \<and>
           (\<forall>b. max_price f = Some b \<longrightarrow> has_num d ''price'' (\<lambda>x. x \<le> b)) \<and>
           (\<forall>z. active_str (size_f f) = Some z \<longrightarrow> has_value d ''sizes'' (BStr z)) \<and>
           (\<forall>c. active_str (color f) = Some c \<longrightarrow> has_value d ''colors'' (BStr c)) \<and>
           (\<forall>t. active_str (q f) = Some t \<longrightarrow>
              (\<exists>found. regex_compile X t ''i'' = Some found \<and>
                 (has_str d ''title'' found \<or> has_str d ''description'' found \<or>
                  has_str d ''tags'' found)))"
proof -
  let ?found = "filter (matches X (build_query f)) (collections s ''clothingproduct'')"
  from assms(1) have out: "out = map (normalize_id X) (take limit ?found)"
    by (simp add: list_products_Some split: if_splits)
  with assms(2) obtain d where d: "d \<in> set (take limit ?found)" and r: "r = normalize_id X d"
    by auto
  from d have "d \<in> set ?found" by (rule in_set_takeD)
  then have mem: "d \<in> set (collections s ''clothingproduct'')"
    and m: "matches X (build_query f) d" by simp_all
  from m have
    "(\<forall>c. active_str (category f) = Some c \<longrightarrow> has_value d ''category'' (BStr c)) \<and>
     (\<forall>a. min_price f = Some a \<longrightarrow> has_num d ''price'' (\<lambda>x. a \<le> x)) \<and>
     (\<forall>b. max_price f = Some b \<longrightarrow> has_num d ''price'' (\<lambda>x. x \<le> b)) \<and>
     (\<forall>z. active_str (size_f f) = Some z \<longrightarrow> has_value d ''sizes'' (BStr z)) \<and>
     (\<forall>c. active_str (color f) = Some c \<longrightarrow> has_value d ''colors'' (BStr c)) \<and>
     (\<forall>t. active_str (q f) = Some t \<longrightarrow>
        (\<exists>found. regex_compile X t ''i'' = Some found \<and>
           (has_str d ''title'' found \<or> has_str d ''description'' found \<or>
            has_str d ''tags'' found)))"
    unfolding matches_build_query by (auto split: option.splits)
  with mem r show ?thesis by blast
qed

theorem C4_conjunctive_witness:
  "list_products sample_extern (Some (store_of [record_R1, record_R2]))
       (no_filter\<lparr>category := Some ''Men'', min_price := Some 50\<rparr>) 50 =
     Inr [normalize_id sample_extern record_R1] \<and>
   normalize_id sample_extern record_R1 =
     [(''_id'', BStr ''000000000000000000000001''), (''category'', BStr ''Men''),
      (''price'', BNum 80)] \<and>
   (\<exists>d \<in> set [record_R1, record_R2].
      normalize_id sample_extern record_R1 = normalize_id sample_extern d \<and>
      has_value d ''category'' (BStr ''Men'') \<and> has_num d ''price'' (\<lambda>x. 50 \<le> x))"
proof -
  let ?f = "no_filter\<lparr>category := Some ''Men'', min_price := Some 50\<rparr>"
  have e: "list_products sample_extern (Some (store_of [record_R1, record_R2])) ?f 50 =
     Inr [normalize_id sample_extern record_R1]"
    by code_simp
  have n: "normalize_id sample_extern record_R1 =
      [(''_id'', BStr ''000000000000000000000001''), (''category'', BStr ''Men''),
       (''price'', BNum 80)]"
    by code_simp
  have "\<exists>d \<in> set (collections (store_of [record_R1, record_R2]) ''clothingproduct'').
      normalize_id sample_extern record_R1 = normalize_id sample_extern d \<and>
      (\<forall>c. active_str (category ?f) = Some c \<longrightarrow> has_value d ''category'' (BStr c)) \<and>
      (\<forall>a. min_price ?f = Some a \<longrightarrow> has_num d ''price'' (\<lambda>x. a \<le> x))"
    using C4_conjunctive [OF e, of "normalize_id sample_extern record_R1"] by (simp, blast)
  then have "\<exists>d \<in> set [record_R1, record_R2].
      normalize_id sample_extern record_R1 = normalize_id sample_extern d \<and>
      has_value d ''category'' (BStr ''Men'') \<and> has_num d ''price'' (\<lambda>x. 50 \<le> x)"
    by (simp add: store_of_def no_filter_def active_str_def)
  with e n show ?thesis by blast
qed

text \<open>
  Claim C9. \<^verbatim>\<open>list_products\<close> does not fail on account of a record: whenever the store
  accepts the pattern of the query (there is none without \<^verbatim>\<open>q\<close>), the result is the list of
  the records found, whatever fields they have or lack, and a record without an identifier
  is returned as it is stored, without the key \<^verbatim>\<open>_id\<close>.
\<close>

theorem C9_missing_fields:
  assumes "\<forall>t. active_str (q f) = Some t \<longrightarrow> regex_compile X t ''i'' \<noteq> None"
  shows "list_products X (Some s) f limit =
           Inr (map (normalize_id X)
                  (take limit (filter (matches X (build_query f)) (collections s ''clothingproduct'')))) \<and>
         (\<forall>d. map_of d ''_id'' = None \<longrightarrow> normalize_id X d = d)"
  using assms by (simp add: list_products_Some query_ok_build_query normalize_id_absent)

theorem C9_missing_fields_witness:
  "list_products sample_extern (Some (store_of [untagged, record_R1])) no_filter 50 =
     Inr [untagged, normalize_id sample_extern record_R1] \<and>
   normalize_id sample_extern untagged = untagged"
proof -
  have a: "\<forall>t. active_str (q no_filter) = Some t \<longrightarrow> regex_compile sample_extern t ''i'' \<noteq> None"
    by (simp add: no_filter_def active_str_def)
  have m: "map_of untagged ''_id'' = None" by (simp add: untagged_def)
  have f: "filter (matches sample_extern (build_query no_filter)) [untagged, record_R1] =
      [untagged, record_R1]"
    by (simp add: no_filter_def build_query_eq active_str_def matches_def)
  from C9_missing_fields [OF a, of "store_of [untagged, record_R1]" 50] m f
  show ?thesis by (simp add: store_of_def)
qed

end
